theory Spec2Isabelle
  imports Complex_Main "HOL-Library.AList" "HOL-Library.Sublist"
begin

section \<open>JavaScript values and the object store\<close>

text \<open>
  The provider (context.tsx) passes objects around by reference and mutates one of them
  (\<^verbatim>\<open>payload.tag = tagRef.current\<close>), so objects live in an explicit store: a reference
  is an index into a list of objects, and an object is the list of its own properties in
  insertion order. Primitive values are carried by \<open>jsval\<close> itself. Numbers are only
  passed through by this code, never computed with.
\<close>

datatype jsval = JUndefined | JNull | JBool bool | JNum real | JStr string | JRef nat

fun truthy :: "jsval \<Rightarrow> bool" where
  "truthy JUndefined = False"
| "truthy JNull = False"
| "truthy (JBool b) = b"
| "truthy (JNum n) = (n \<noteq> 0)"
| "truthy (JStr s) = (s \<noteq> [])"
| "truthy (JRef r) = True"

type_synonym props = "(string \<times> jsval) list"
type_synonym store = "props list"

definition heap_alloc :: "props \<Rightarrow> store \<Rightarrow> nat \<times> store" where
  "heap_alloc ps h = (length h, h @ [ps])"

definition heap_props :: "store \<Rightarrow> nat \<Rightarrow> props" where
  "heap_props h r = (if r < length h then h ! r else [])"

text \<open>
  \<^verbatim>\<open>target[k] = v\<close> in strict-mode code (an ES module): on an object the property is
  updated in place or appended; on \<^verbatim>\<open>undefined\<close>, \<^verbatim>\<open>null\<close> or a primitive the assignment
  throws a TypeError, which is the result \<open>None\<close>.
\<close>

definition set_prop :: "jsval \<Rightarrow> string \<Rightarrow> jsval \<Rightarrow> store \<Rightarrow> store option" where
  "set_prop target k v h =
     (case target of
        JRef r \<Rightarrow> Some (h[r := AList.update k v (heap_props h r)])
      | _ \<Rightarrow> None)"

text \<open>
  Object spread \<^verbatim>\<open>{...base, ...src}\<close>: the own properties of the source are defined on
  the target one after the other, in order. An omitted (\<^verbatim>\<open>undefined\<close>) source
  contributes nothing.

  The list keeps the properties in the order they were defined. That is the order in
  which JavaScript enumerates property names that are not integer-like; integer-like
  names (\<^verbatim>\<open>'1'\<close>, \<^verbatim>\<open>'42'\<close>) are enumerated first, in ascending order, wherever they were
  defined, and the list does not reproduce that. An object built by a spread from
  arbitrary caller data is therefore read as a mapping (\<open>map_of\<close>), not by position.
\<close>

definition spread_into :: "props \<Rightarrow> props \<Rightarrow> props" where
  "spread_into base ps = foldl (\<lambda>acc kv. AList.update (fst kv) (snd kv) acc) base ps"

definition own_props :: "store \<Rightarrow> nat option \<Rightarrow> props" where
  "own_props h d = (case d of None \<Rightarrow> [] | Some r \<Rightarrow> heap_props h r)"

definition opt_ref :: "nat option \<Rightarrow> jsval" where
  "opt_ref d = (case d of None \<Rightarrow> JUndefined | Some r \<Rightarrow> JRef r)"

definition opt_str :: "string option \<Rightarrow> jsval" where
  "opt_str s = (case s of None \<Rightarrow> JUndefined | Some x \<Rightarrow> JStr x)"

section \<open>Provider configuration\<close>

definition DEFAULT_HOST :: string where
  "DEFAULT_HOST = ''https://ng.entrolytics.click''"

definition SCRIPT_ID :: string where
  "SCRIPT_ID = ''entrolytics-script''"

text \<open>
  \<^verbatim>\<open>beforeSend?: (type: string, payload: unknown) => unknown | null\<close> is a callback of
  the application. It receives the payload object by reference, so it may read and
  change the store; it returns a value or throws.
\<close>

datatype bs_outcome = Returns jsval | Throws

type_synonym before_send = "string \<Rightarrow> jsval \<Rightarrow> store \<Rightarrow> bs_outcome \<times> store"

record config =
  websiteId :: string
  host :: string
  autoTrack :: bool
  respectDnt :: bool
  domains :: "string list option"
  useEdgeRuntime :: bool
  tag :: "string option"
  excludeSearch :: bool
  excludeHash :: bool
  beforeSend :: "before_send option"

section \<open>Tracker bridge and dispatch API (context.tsx)\<close>

text \<open>
  The closures handed to \<^verbatim>\<open>waitForTracker\<close> are the six callbacks built by the dispatch
  operations; each is represented by its captured arguments. An event-data argument is
  a reference to the caller's object, or \<open>None\<close> when omitted.
\<close>

datatype callback =
    CbTrack string "nat option"
  | CbPageView "string option" "string option"
  | CbRevenue string real string "nat option"
  | CbOutbound string "nat option"
  | CbIdentify nat
  | CbIdentifyUser string "nat option"

text \<open>
  What the external tracker object receives: \<^verbatim>\<open>track(eventName, eventData)\<close>,
  \<^verbatim>\<open>track(payload)\<close> and \<^verbatim>\<open>identify(data)\<close>, each object argument recorded with the own
  properties it has at the moment of the call.
\<close>

datatype tracker_call =
    TrackEvent string "props option"
  | TrackPayload props
  | Identify props

datatype js_error = TypeError | UserError

datatype effect =
    Invoked callback
  | BeforeSend string jsval
  | Called tracker_call
  | Thrown js_error

text \<open>
  The state the provider works on: whether \<^verbatim>\<open>window\<close> is defined, whether
  \<^verbatim>\<open>window.entrolytics\<close> is present, the object store, \<^verbatim>\<open>tagRef.current\<close>, the pending
  \<^verbatim>\<open>setTimeout(tryExecute, 100)\<close> timers (all with the same delay, so they fire in the
  order they were set), and the trace of observable effects in the order they happen.
\<close>

record world =
  has_window :: bool
  tracker :: bool
  heap :: store
  tagRef :: "string option"
  timers :: "callback list"
  trace :: "effect list"

text \<open>The tag when \<^verbatim>\<open>if (tagRef.current)\<close> succeeds: defined and not the empty string.\<close>

definition current_tag :: "world \<Rightarrow> string option" where
  "current_tag w = (case tagRef w of None \<Rightarrow> None | Some t \<Rightarrow> if t = [] then None else Some t)"

text \<open>\<^verbatim>\<open>window.entrolytics?.track(...)\<close> and \<^verbatim>\<open>window.entrolytics?.identify(...)\<close>.\<close>

definition call_tracker :: "tracker_call \<Rightarrow> world \<Rightarrow> world" where
  "call_tracker c w = (if tracker w then w\<lparr>trace := trace w @ [Called c]\<rparr> else w)"

definition send_track :: "string \<Rightarrow> nat option \<Rightarrow> world \<Rightarrow> world" where
  "send_track eventName eventData w =
     call_tracker (TrackEvent eventName (map_option (heap_props (heap w)) eventData)) w"

text \<open>
  The tail of the \<^verbatim>\<open>track\<close> callback, after the transform: the tag is written onto the
  (possibly transformed) payload value, and then \<^verbatim>\<open>eventName\<close> and \<^verbatim>\<open>eventData\<close>, not the
  payload, are passed to the tracker.
\<close>

definition track_stamp_and_send :: "string \<Rightarrow> nat option \<Rightarrow> jsval \<Rightarrow> world \<Rightarrow> world" where
  "track_stamp_and_send eventName eventData payload w =
     (case current_tag w of
        None \<Rightarrow> send_track eventName eventData w
      | Some t \<Rightarrow>
          (case set_prop payload ''tag'' (JStr t) (heap w) of
             None \<Rightarrow> w\<lparr>trace := trace w @ [Thrown TypeError]\<rparr>
           | Some h' \<Rightarrow> send_track eventName eventData (w\<lparr>heap := h'\<rparr>)))"

definition track_callback :: "config \<Rightarrow> string \<Rightarrow> nat option \<Rightarrow> world \<Rightarrow> world" where
  "track_callback cfg eventName eventData w =
     (let (r, h1) = heap_alloc [(''name'', JStr eventName), (''data'', opt_ref eventData)] (heap w);
          w1 = w\<lparr>heap := h1\<rparr>
      in case beforeSend cfg of
           None \<Rightarrow> track_stamp_and_send eventName eventData (JRef r) w1
         | Some f \<Rightarrow>
             (case f ''event'' (JRef r) h1 of
                (Throws, h2) \<Rightarrow>
                  w1\<lparr>heap := h2,
                     trace := trace w1 @ [BeforeSend ''event'' (JRef r), Thrown UserError]\<rparr>
              | (Returns p, h2) \<Rightarrow>
                  (let w2 = w1\<lparr>heap := h2, trace := trace w1 @ [BeforeSend ''event'' (JRef r)]\<rparr>
                   in if p = JNull then w2
                      else track_stamp_and_send eventName eventData p w2)))"

definition pageview_payload :: "string option \<Rightarrow> string option \<Rightarrow> string option \<Rightarrow> props" where
  "pageview_payload url referrer t =
     (let p0 = [];
          p1 = (if truthy (opt_str url) then AList.update ''url'' (opt_str url) p0 else p0);
          p2 = (if truthy (opt_str referrer)
                then AList.update ''referrer'' (opt_str referrer) p1 else p1)
      in case t of None \<Rightarrow> p2 | Some x \<Rightarrow> AList.update ''tag'' (JStr x) p2)"

definition trackPageView_callback :: "string option \<Rightarrow> string option \<Rightarrow> world \<Rightarrow> world" where
  "trackPageView_callback url referrer w =
     (let (r, h1) = heap_alloc (pageview_payload url referrer (current_tag w)) (heap w);
          w1 = w\<lparr>heap := h1\<rparr>
      in call_tracker (TrackPayload (heap_props h1 r)) w1)"

definition revenue_data :: "props \<Rightarrow> real \<Rightarrow> string \<Rightarrow> string option \<Rightarrow> props" where
  "revenue_data dataProps revenue currency t =
     (let e = AList.update ''currency'' (JStr currency)
                (AList.update ''revenue'' (JNum revenue) (spread_into [] dataProps))
      in case t of None \<Rightarrow> e | Some x \<Rightarrow> AList.update ''tag'' (JStr x) e)"

definition trackRevenue_callback ::
  "string \<Rightarrow> real \<Rightarrow> string \<Rightarrow> nat option \<Rightarrow> world \<Rightarrow> world" where
  "trackRevenue_callback eventName revenue currency data w =
     (let (r, h1) = heap_alloc
                      (revenue_data (own_props (heap w) data) revenue currency (current_tag w))
                      (heap w);
          w1 = w\<lparr>heap := h1\<rparr>
      in send_track eventName (Some r) w1)"

definition trackOutboundLink_callback :: "string \<Rightarrow> nat option \<Rightarrow> world \<Rightarrow> world" where
  "trackOutboundLink_callback url data w =
     (let (r, h1) = heap_alloc
                      (AList.update ''url'' (JStr url) (spread_into [] (own_props (heap w) data)))
                      (heap w);
          w1 = w\<lparr>heap := h1\<rparr>
      in send_track ''outbound-link-click'' (Some r) w1)"

definition identify_callback :: "nat \<Rightarrow> world \<Rightarrow> world" where
  "identify_callback data w = call_tracker (Identify (heap_props (heap w) data)) w"

definition identifyUser_callback :: "string \<Rightarrow> nat option \<Rightarrow> world \<Rightarrow> world" where
  "identifyUser_callback userId traits w =
     (let (r, h1) = heap_alloc
                      (spread_into [(''id'', JStr userId)] (own_props (heap w) traits))
                      (heap w);
          w1 = w\<lparr>heap := h1\<rparr>
      in call_tracker (Identify (heap_props h1 r)) w1)"

fun callback_body :: "config \<Rightarrow> callback \<Rightarrow> world \<Rightarrow> world" where
  "callback_body cfg (CbTrack eventName eventData) w = track_callback cfg eventName eventData w"
| "callback_body cfg (CbPageView url referrer) w = trackPageView_callback url referrer w"
| "callback_body cfg (CbRevenue eventName revenue currency data) w =
     trackRevenue_callback eventName revenue currency data w"
| "callback_body cfg (CbOutbound url data) w = trackOutboundLink_callback url data w"
| "callback_body cfg (CbIdentify data) w = identify_callback data w"
| "callback_body cfg (CbIdentifyUser userId traits) w = identifyUser_callback userId traits w"

text \<open>Invoking a callback: the invocation is recorded, then the body runs.\<close>

definition run_callback :: "config \<Rightarrow> callback \<Rightarrow> world \<Rightarrow> world" where
  "run_callback cfg cb w = callback_body cfg cb (w\<lparr>trace := trace w @ [Invoked cb]\<rparr>)"

definition tryExecute :: "config \<Rightarrow> callback \<Rightarrow> world \<Rightarrow> world" where
  "tryExecute cfg cb w =
     (if tracker w then run_callback cfg cb w
      else w\<lparr>timers := timers w @ [cb]\<rparr>)"

definition waitForTracker :: "config \<Rightarrow> callback \<Rightarrow> world \<Rightarrow> world" where
  "waitForTracker cfg cb w = (if \<not> has_window w then w else tryExecute cfg cb w)"

definition track :: "config \<Rightarrow> string \<Rightarrow> nat option \<Rightarrow> world \<Rightarrow> world" where
  "track cfg eventName eventData w = waitForTracker cfg (CbTrack eventName eventData) w"

definition trackPageView :: "config \<Rightarrow> string option \<Rightarrow> string option \<Rightarrow> world \<Rightarrow> world" where
  "trackPageView cfg url referrer w = waitForTracker cfg (CbPageView url referrer) w"

text \<open>The default parameter \<^verbatim>\<open>currency = 'USD'\<close> applies when the argument is omitted.\<close>

definition trackRevenue ::
  "config \<Rightarrow> string \<Rightarrow> real \<Rightarrow> string option \<Rightarrow> nat option \<Rightarrow> world \<Rightarrow> world" where
  "trackRevenue cfg eventName revenue currency data w =
     waitForTracker cfg
       (CbRevenue eventName revenue (case currency of None \<Rightarrow> ''USD'' | Some c \<Rightarrow> c) data) w"

definition trackOutboundLink :: "config \<Rightarrow> string \<Rightarrow> nat option \<Rightarrow> world \<Rightarrow> world" where
  "trackOutboundLink cfg url data w = waitForTracker cfg (CbOutbound url data) w"

definition identify :: "config \<Rightarrow> nat \<Rightarrow> world \<Rightarrow> world" where
  "identify cfg data w = waitForTracker cfg (CbIdentify data) w"

definition identifyUser :: "config \<Rightarrow> string \<Rightarrow> nat option \<Rightarrow> world \<Rightarrow> world" where
  "identifyUser cfg userId traits w = waitForTracker cfg (CbIdentifyUser userId traits) w"

definition setTag :: "string \<Rightarrow> world \<Rightarrow> world" where
  "setTag newTag w = w\<lparr>tagRef := Some newTag\<rparr>"

text \<open>
  The hook \<^verbatim>\<open>useTrackRevenue\<close> (hooks/useTrackRevenue.ts) defaults the currency itself and
  passes all four arguments on to the provider's \<^verbatim>\<open>trackRevenue\<close>.
\<close>

definition useTrackRevenue ::
  "config \<Rightarrow> string \<Rightarrow> real \<Rightarrow> string option \<Rightarrow> nat option \<Rightarrow> world \<Rightarrow> world" where
  "useTrackRevenue cfg eventName revenue currency data w =
     trackRevenue cfg eventName revenue
       (Some (case currency of None \<Rightarrow> ''USD'' | Some c \<Rightarrow> c)) data w"

text \<open>
  The event loop as far as the bridge sees it: the oldest pending timer fires and runs
  \<^verbatim>\<open>tryExecute\<close> again; the external script finishes loading and installs the global
  tracker object.

  A pending \<^verbatim>\<open>track\<close> closure keeps the \<^verbatim>\<open>beforeSend\<close> of the render in which \<^verbatim>\<open>track\<close> was
  called. The configuration is a parameter here, taken to be the same at the call and
  when the poll fires; a provider that is re-rendered with another \<^verbatim>\<open>beforeSend\<close> while
  polls are pending is not described.
\<close>

definition fire_timer :: "config \<Rightarrow> world \<Rightarrow> world" where
  "fire_timer cfg w =
     (case timers w of
        [] \<Rightarrow> w
      | cb # rest \<Rightarrow> tryExecute cfg cb (w\<lparr>timers := rest\<rparr>))"

fun ticks :: "config \<Rightarrow> nat \<Rightarrow> world \<Rightarrow> world" where
  "ticks cfg 0 w = w"
| "ticks cfg (Suc n) w = ticks cfg n (fire_timer cfg w)"

definition tracker_loads :: "world \<Rightarrow> world" where
  "tracker_loads w = w\<lparr>tracker := True\<rparr>"

text \<open>The calls the external tracker has received, in order.\<close>

fun tracker_calls :: "effect list \<Rightarrow> tracker_call list" where
  "tracker_calls [] = []"
| "tracker_calls (Called c # es) = c # tracker_calls es"
| "tracker_calls (e # es) = tracker_calls es"

section \<open>Script loader (the provider's injection effect)\<close>

text \<open>
  The document, as far as the effect looks at it: its elements in document order, each
  with its \<^verbatim>\<open>id\<close>; a script element also has \<^verbatim>\<open>src\<close>, \<^verbatim>\<open>defer\<close> and its \<^verbatim>\<open>dataset\<close>
  entries in the order they were assigned.
\<close>

record element =
  elem_id :: string
  elem_src :: string
  elem_defer :: bool
  dataset :: "(string \<times> string) list"

definition getElementById :: "element list \<Rightarrow> string \<Rightarrow> element option" where
  "getElementById doc i = find (\<lambda>e. elem_id e = i) doc"

text \<open>\<^verbatim>\<open>host.replace(/\/$/, '')\<close>: one slash at the very end is dropped.\<close>

definition strip_trailing_slash :: "string \<Rightarrow> string" where
  "strip_trailing_slash s = (if s \<noteq> [] \<and> last s = CHR ''/'' then butlast s else s)"

text \<open>\<^verbatim>\<open>domains.join(',')\<close>.\<close>

fun join_commas :: "string list \<Rightarrow> string" where
  "join_commas [] = []"
| "join_commas [d] = d"
| "join_commas (d # ds) = d @ '','' @ join_commas ds"

definition script_dataset :: "config \<Rightarrow> (string \<times> string) list" where
  "script_dataset cfg =
     [(''websiteId'', websiteId cfg)]
     @ (if \<not> autoTrack cfg then [(''autoTrack'', ''false'')] else [])
     @ (if respectDnt cfg then [(''doNotTrack'', ''true'')] else [])
     @ (case domains cfg of
          None \<Rightarrow> []
        | Some ds \<Rightarrow> if length ds > 0 then [(''domains'', join_commas ds)] else [])
     @ (case tag cfg of
          None \<Rightarrow> []
        | Some t \<Rightarrow> if t \<noteq> [] then [(''tag'', t)] else [])
     @ (if excludeSearch cfg then [(''excludeSearch'', ''true'')] else [])
     @ (if excludeHash cfg then [(''excludeHash'', ''true'')] else [])"

definition make_script :: "config \<Rightarrow> element" where
  "make_script cfg =
     \<lparr>elem_id = SCRIPT_ID,
      elem_src = strip_trailing_slash (host cfg)
                 @ (if useEdgeRuntime cfg then ''/script-edge.js'' else ''/script.js''),
      elem_defer = True,
      dataset = script_dataset cfg\<rparr>"

text \<open>
  One mounted provider: \<^verbatim>\<open>isLoadedRef.current\<close>, the \<^verbatim>\<open>isReady\<close> state, and whether
  its last effect run returned a cleanup function (only the injecting branch does).
\<close>

record mounted =
  isLoadedRef :: bool
  isReady :: bool
  has_cleanup :: bool

definition new_instance :: mounted where
  "new_instance = \<lparr>isLoadedRef = False, isReady = False, has_cleanup = False\<rparr>"

text \<open>The body of the \<^verbatim>\<open>useEffect\<close>; \<open>win\<close> says whether \<^verbatim>\<open>window\<close> is defined.\<close>

definition inject_effect :: "bool \<Rightarrow> config \<Rightarrow> element list \<times> mounted \<Rightarrow> element list \<times> mounted" where
  "inject_effect win cfg s =
     (let doc = fst s; inst = snd s
      in if \<not> win then (doc, inst\<lparr>has_cleanup := False\<rparr>)
         else if getElementById doc SCRIPT_ID \<noteq> None
         then (doc, inst\<lparr>isLoadedRef := True, isReady := True, has_cleanup := False\<rparr>)
         else (doc @ [make_script cfg], inst\<lparr>has_cleanup := True\<rparr>))"

text \<open>\<^verbatim>\<open>existingScript.remove()\<close> takes the first element with the identifier out.\<close>

fun remove_by_id :: "string \<Rightarrow> element list \<Rightarrow> element list" where
  "remove_by_id i [] = []"
| "remove_by_id i (e # es) = (if elem_id e = i then es else e # remove_by_id i es)"

definition effect_cleanup :: "element list \<times> mounted \<Rightarrow> element list \<times> mounted" where
  "effect_cleanup s =
     (let doc = fst s; inst = snd s
      in if has_cleanup inst
         then (remove_by_id SCRIPT_ID doc, inst\<lparr>has_cleanup := False\<rparr>)
         else (doc, inst))"

definition script_onload :: "mounted \<Rightarrow> mounted" where
  "script_onload inst = inst\<lparr>isLoadedRef := True, isReady := True\<rparr>"

text \<open>
  A page with any number of provider instances on one document. A provider is mounted
  (a new instance runs the effect), re-renders with changed configuration (cleanup, then
  the effect again), sees its script's \<^verbatim>\<open>load\<close> event, or is unmounted (cleanup).
\<close>

record page =
  page_window :: bool
  document :: "element list"
  instances :: "mounted list"

datatype page_event =
    Mount config
  | Rerun nat config
  | ScriptLoaded nat
  | Unmount nat

definition with_instance ::
  "nat \<Rightarrow> (element list \<times> mounted \<Rightarrow> element list \<times> mounted) \<Rightarrow> page \<Rightarrow> page" where
  "with_instance i f pg =
     (if i < length (instances pg)
      then (let r = f (document pg, instances pg ! i)
            in pg\<lparr>document := fst r, instances := (instances pg)[i := snd r]\<rparr>)
      else pg)"

fun page_step :: "page_event \<Rightarrow> page \<Rightarrow> page" where
  "page_step (Mount cfg) pg =
     (let r = inject_effect (page_window pg) cfg (document pg, new_instance)
      in pg\<lparr>document := fst r, instances := instances pg @ [snd r]\<rparr>)"
| "page_step (Rerun i cfg) pg =
     with_instance i (\<lambda>s. inject_effect (page_window pg) cfg (effect_cleanup s)) pg"
| "page_step (ScriptLoaded i) pg = with_instance i (\<lambda>s. (fst s, script_onload (snd s))) pg"
| "page_step (Unmount i) pg = with_instance i effect_cleanup pg"

fun page_run :: "page_event list \<Rightarrow> page \<Rightarrow> page" where
  "page_run [] pg = pg"
| "page_run (e # es) pg = page_run es (page_step e pg)"

definition script_count :: "element list \<Rightarrow> nat" where
  "script_count doc = length (filter (\<lambda>e. elem_id e = SCRIPT_ID) doc)"

section \<open>Zero-configuration component (components/Analytics.tsx)\<close>

text \<open>
  The properties a provider element is rendered with; an omitted property is \<open>None\<close> and
  takes the default of \<^verbatim>\<open>EntrolyticsProvider\<close>'s parameter list.
\<close>

record provider_props =
  pp_websiteId :: string
  pp_host :: "string option"
  pp_autoTrack :: "bool option"
  pp_respectDnt :: "bool option"
  pp_domains :: "string list option"
  pp_useEdgeRuntime :: "bool option"
  pp_tag :: "string option"
  pp_excludeSearch :: "bool option"
  pp_excludeHash :: "bool option"
  pp_beforeSend :: "before_send option"

definition dflt :: "'a \<Rightarrow> 'a option \<Rightarrow> 'a" where
  "dflt d x = (case x of None \<Rightarrow> d | Some v \<Rightarrow> v)"

definition EntrolyticsProvider_config :: "provider_props \<Rightarrow> config" where
  "EntrolyticsProvider_config pp =
     \<lparr>websiteId = pp_websiteId pp,
      host = dflt DEFAULT_HOST (pp_host pp),
      autoTrack = dflt True (pp_autoTrack pp),
      respectDnt = dflt False (pp_respectDnt pp),
      domains = pp_domains pp,
      useEdgeRuntime = dflt True (pp_useEdgeRuntime pp),
      tag = pp_tag pp,
      excludeSearch = dflt False (pp_excludeSearch pp),
      excludeHash = dflt False (pp_excludeHash pp),
      beforeSend = pp_beforeSend pp\<rparr>"

text \<open>
  What \<^verbatim>\<open>Analytics\<close> reads from its surroundings: whether \<^verbatim>\<open>window\<close> is defined,
  \<^verbatim>\<open>window.process?.env\<close> and \<^verbatim>\<open>import.meta.env\<close> (each possibly undefined; the
  variables are strings), and the truthiness of \<^verbatim>\<open>import.meta.env.DEV\<close>.
\<close>

record environment =
  env_window :: bool
  window_process_env :: "(string \<rightharpoonup> string) option"
  import_meta_env :: "(string \<rightharpoonup> string) option"
  import_meta_DEV :: bool

definition processEnv :: "environment \<Rightarrow> (string \<rightharpoonup> string)" where
  "processEnv env =
     (if env_window env
      then (case window_process_env env of None \<Rightarrow> Map.empty | Some m \<Rightarrow> m)
      else Map.empty)"

definition importMetaEnv :: "environment \<Rightarrow> (string \<rightharpoonup> string)" where
  "importMetaEnv env = (case import_meta_env env of None \<Rightarrow> Map.empty | Some m \<Rightarrow> m)"

text \<open>\<^verbatim>\<open>a || b\<close> on values that are a string or undefined.\<close>

definition str_truthy :: "string option \<Rightarrow> bool" where
  "str_truthy a = (case a of None \<Rightarrow> False | Some s \<Rightarrow> s \<noteq> [])"

definition str_or :: "string option \<Rightarrow> string option \<Rightarrow> string option" where
  "str_or a b = (if str_truthy a then a else b)"

definition ENV_CRA_WEBSITE_ID :: string where
  "ENV_CRA_WEBSITE_ID = ''REACT_APP_ENTROLYTICS_WEBSITE_ID''"

definition ENV_VITE_WEBSITE_ID :: string where
  "ENV_VITE_WEBSITE_ID = ''VITE_ENTROLYTICS_WEBSITE_ID''"

definition missing_id_warning :: string where
  "missing_id_warning =
     ''[Entrolytics] Missing environment variable. Add one of the following to your .env file:''
     @ [CHR 0x0A] @ ''  - Create React App: '' @ ENV_CRA_WEBSITE_ID
     @ [CHR 0x0A] @ ''  - Vite: '' @ ENV_VITE_WEBSITE_ID
     @ [CHR 0x0A] @ ''Or pass websiteId as a prop.''"

record analytics_props =
  ap_websiteId :: "string option"
  ap_host :: "string option"
  ap_rest :: provider_props

datatype rendered = RenderNull | RenderProvider provider_props

definition finalWebsiteId :: "analytics_props \<Rightarrow> environment \<Rightarrow> string option" where
  "finalWebsiteId ap env =
     str_or (str_or (ap_websiteId ap) (processEnv env ENV_CRA_WEBSITE_ID))
            (importMetaEnv env ENV_VITE_WEBSITE_ID)"

definition finalHost :: "analytics_props \<Rightarrow> environment \<Rightarrow> string option" where
  "finalHost ap env =
     str_or (str_or (ap_host ap) (processEnv env ''REACT_APP_ENTROLYTICS_HOST''))
            (importMetaEnv env ''VITE_ENTROLYTICS_HOST'')"

definition isDev :: "environment \<Rightarrow> bool" where
  "isDev env = (processEnv env ''NODE_ENV'' = Some ''development'' \<or> import_meta_DEV env)"

text \<open>The component returns what it renders; the second component is \<^verbatim>\<open>console.warn\<close>.\<close>

definition Analytics :: "analytics_props \<Rightarrow> environment \<Rightarrow> rendered \<times> string list" where
  "Analytics ap env =
     (if isDev env \<and> \<not> str_truthy (finalWebsiteId ap env) then (RenderNull, [missing_id_warning])
      else if \<not> str_truthy (finalWebsiteId ap env) then (RenderNull, [])
      else (RenderProvider
              ((ap_rest ap)\<lparr>pp_websiteId := dflt [] (finalWebsiteId ap env),
                            pp_host := finalHost ap env\<rparr>), []))"

text \<open>
  Mounting the component on a page: a rendered provider becomes a new instance whose
  effect runs; a null render mounts nothing.
\<close>

definition Analytics_mount :: "analytics_props \<Rightarrow> environment \<Rightarrow> page \<Rightarrow> page" where
  "Analytics_mount ap env pg =
     (case fst (Analytics ap env) of
        RenderNull \<Rightarrow> pg
      | RenderProvider pp \<Rightarrow> page_step (Mount (EntrolyticsProvider_config pp)) pg)"

section \<open>Direct-HTTP trackers (hooks/useFormTracking.ts, hooks/useWebVitals.ts)\<close>

datatype FormEventType = Start | Field_focus | Field_blur | Field_error | Submit | Abandon

text \<open>
  \<^verbatim>\<open>FormEventData\<close>, also used for the argument of \<^verbatim>\<open>trackEvent\<close>, where the form
  fields are optional too. An absent or undefined property is \<open>None\<close>.
\<close>

record form_event =
  eventType :: FormEventType
  fe_formId :: "string option"
  fe_formName :: "string option"
  fe_urlPath :: "string option"
  fieldName :: "string option"
  fieldType :: "string option"
  fieldIndex :: "int option"
  timeOnField :: "int option"
  timeSinceStart :: "int option"
  errorMessage :: "string option"
  success :: "bool option"

definition form_data :: "FormEventType \<Rightarrow> form_event" where
  "form_data t =
     \<lparr>eventType = t, fe_formId = None, fe_formName = None, fe_urlPath = None,
      fieldName = None, fieldType = None, fieldIndex = None, timeOnField = None,
      timeSinceStart = None, errorMessage = None, success = None\<rparr>"

datatype WebVitalMetric = LCP | INP | CLS | TTFB | FCP
datatype WebVitalRating = Good | Needs_improvement | Poor
datatype NavigationType =
  Navigate | Reload | Back_forward | Back_forward_cache | Prerender | Restore

record WebVitalData =
  metric :: WebVitalMetric
  metric_value :: real
  rating :: WebVitalRating
  delta :: "real option"
  metric_id :: "string option"
  navigationType :: "NavigationType option"
  attribution :: "props option"

text \<open>A call of \<^verbatim>\<open>fetch\<close>: the URL and what the JSON body is made from.\<close>

datatype request =
    FormRequest string string form_event
  | VitalRequest string string WebVitalData string string

text \<open>
  How a call of \<^verbatim>\<open>fetch\<close> ends: the promise resolves (whatever the HTTP status), the call
  throws before returning a promise, or the promise rejects. The string is the error.
\<close>

datatype fetch_outcome = FetchResolves | FetchThrows string | FetchRejects string

text \<open>
  The browser as the two trackers see it: whether \<^verbatim>\<open>window\<close> is defined, the location,
  the successive readings of \<^verbatim>\<open>Date.now()\<close> with the number of readings taken so far,
  how the n-th call of \<^verbatim>\<open>fetch\<close> will end, the calls of \<^verbatim>\<open>fetch\<close> made so far, and what
  \<^verbatim>\<open>console.error\<close> has printed.
\<close>

record http_world =
  hw_window :: bool
  location_pathname :: string
  location_href :: string
  clock :: "nat \<Rightarrow> int"
  clock_reads :: nat
  network :: "nat \<Rightarrow> fetch_outcome"
  fetch_calls :: "request list"
  console_error :: "(string \<times> string) list"

definition Date_now :: "http_world \<Rightarrow> int \<times> http_world" where
  "Date_now hw = (clock hw (clock_reads hw), hw\<lparr>clock_reads := Suc (clock_reads hw)\<rparr>)"

text \<open>
  \<^verbatim>\<open>await fetch(...)\<close> inside the \<^verbatim>\<open>try\<close> block completes normally or abruptly: a
  synchronous throw and a rejection both arrive as an exception at this point.
\<close>

fun await_fetch :: "fetch_outcome \<Rightarrow> string + unit" where
  "await_fetch FetchResolves = Inr ()"
| "await_fetch (FetchThrows e) = Inl e"
| "await_fetch (FetchRejects e) = Inl e"

definition post_json :: "request \<Rightarrow> http_world \<Rightarrow> (string + unit) \<times> http_world" where
  "post_json req hw =
     (await_fetch (network hw (length (fetch_calls hw))),
      hw\<lparr>fetch_calls := fetch_calls hw @ [req]\<rparr>)"

text \<open>\<^verbatim>\<open>try { ... } catch (err) { handler }\<close> around a completed block.\<close>

definition try_catch ::
  "(string + unit) \<times> http_world \<Rightarrow> (string \<Rightarrow> http_world \<Rightarrow> (string + unit) \<times> http_world)
   \<Rightarrow> (string + unit) \<times> http_world" where
  "try_catch body handler =
     (case fst body of Inr u \<Rightarrow> body | Inl err \<Rightarrow> handler err (snd body))"

definition log_error :: "string \<Rightarrow> string \<Rightarrow> http_world \<Rightarrow> (string + unit) \<times> http_world" where
  "log_error msg err hw = (Inr (), hw\<lparr>console_error := console_error hw @ [(msg, err)]\<rparr>)"

text \<open>
  The promise an \<^verbatim>\<open>async\<close> function returns: fulfilled when the body completes, rejected
  with the exception that leaves the body. An \<^verbatim>\<open>async\<close> function never throws at its caller.
\<close>

datatype promise = Fulfilled | Rejected string

definition settle :: "(string + unit) \<times> http_world \<Rightarrow> promise \<times> http_world" where
  "settle r = (case fst r of Inr u \<Rightarrow> (Fulfilled, snd r) | Inl err \<Rightarrow> (Rejected err, snd r))"

record form_options =
  fo_formId :: string
  fo_formName :: "string option"
  fo_autoTrack :: "bool option"
  fo_trackTiming :: "bool option"
  fo_trackAbandonment :: "bool option"

text \<open>\<^verbatim>\<open>config.host || fallback\<close>.\<close>

definition host_or :: "config \<Rightarrow> string \<Rightarrow> string" where
  "host_or cfg fallback = (if host cfg \<noteq> [] then host cfg else fallback)"

text \<open>
  \<^verbatim>\<open>{formId: data.formId || formId, formName: data.formName || formName,
  urlPath: data.urlPath || window.location.pathname, ...data}\<close>: the spread comes last, so
  a property the caller's data has wins over the computed one.

  \<open>None\<close> stands for a property the data does not have, which is what the hook's own
  calls pass for these three. Data that has one of them as an own property with the
  value \<^verbatim>\<open>undefined\<close> (the spread then erases the computed value) is not described.
\<close>

definition form_payload :: "form_options \<Rightarrow> form_event \<Rightarrow> http_world \<Rightarrow> form_event" where
  "form_payload opts d hw =
     (let base_formId = str_or (fe_formId d) (Some (fo_formId opts));
          base_formName = str_or (fe_formName d) (fo_formName opts);
          base_urlPath = str_or (fe_urlPath d) (Some (location_pathname hw))
      in d\<lparr>fe_formId := (case fe_formId d of None \<Rightarrow> base_formId | Some x \<Rightarrow> Some x),
            fe_formName := (case fe_formName d of None \<Rightarrow> base_formName | Some x \<Rightarrow> Some x),
            fe_urlPath := (case fe_urlPath d of None \<Rightarrow> base_urlPath | Some x \<Rightarrow> Some x)\<rparr>)"

definition trackEvent ::
  "config \<Rightarrow> form_options \<Rightarrow> form_event \<Rightarrow> http_world \<Rightarrow> promise \<times> http_world" where
  "trackEvent cfg opts d hw =
     (if \<not> hw_window hw then (Fulfilled, hw)
      else settle
             (try_catch
                (post_json
                   (FormRequest (host_or cfg ''https://entrolytics.click'' @ ''/api/collect/forms'')
                      (websiteId cfg) (form_payload opts d hw))
                   hw)
                (log_error ''[Entrolytics] Failed to track form event:'')))"

definition trackVital :: "config \<Rightarrow> WebVitalData \<Rightarrow> http_world \<Rightarrow> promise \<times> http_world" where
  "trackVital cfg d hw =
     (if \<not> hw_window hw then (Fulfilled, hw)
      else settle
             (try_catch
                (post_json
                   (VitalRequest (host_or cfg ''https://ng.entrolytics.click'' @ ''/api/collect/vitals'')
                      (websiteId cfg) d (location_href hw) (location_pathname hw))
                   hw)
                (log_error ''[Entrolytics] Failed to track vital:'')))"

subsection \<open>Form session state\<close>

record FormState =
  startTime :: "int option"
  fieldStartTimes :: "string \<rightharpoonup> int"
  hasInteracted :: bool
  lastFieldName :: "string option"


text \<open>
  \<^verbatim>\<open>t ? Date.now() - t : undefined\<close> for a timestamp that is a number, null or undefined:
  the clock is read only when the timestamp is truthy (present and not 0).
\<close>

definition elapsed_since :: "int option \<Rightarrow> http_world \<Rightarrow> int option \<times> http_world" where
  "elapsed_since t hw =
     (case t of
        None \<Rightarrow> (None, hw)
      | Some t0 \<Rightarrow> if t0 = 0 then (None, hw)
                   else (let r = Date_now hw in (Some (fst r - t0), snd r)))"

definition trackStart ::
  "config \<Rightarrow> form_options \<Rightarrow> FormState \<times> http_world \<Rightarrow> FormState \<times> http_world" where
  "trackStart cfg opts s =
     (let st = fst s; hw = snd s
      in if startTime st \<noteq> None then (st, hw)
         else (let r = Date_now hw;
                   st1 = st\<lparr>startTime := Some (fst r)\<rparr>
               in (st1, snd (trackEvent cfg opts (form_data Start) (snd r)))))"

definition trackFieldFocus ::
  "config \<Rightarrow> form_options \<Rightarrow> string \<Rightarrow> string option \<Rightarrow> int option
   \<Rightarrow> FormState \<times> http_world \<Rightarrow> FormState \<times> http_world" where
  "trackFieldFocus cfg opts name ftype idx s =
     (let s1 = (if \<not> hasInteracted (fst s)
                then trackStart cfg opts ((fst s)\<lparr>hasInteracted := True\<rparr>, snd s)
                else s);
          s2 = (if dflt True (fo_trackTiming opts)
                then (let r = Date_now (snd s1)
                      in ((fst s1)\<lparr>fieldStartTimes := (fieldStartTimes (fst s1))(name \<mapsto> fst r)\<rparr>,
                          snd r))
                else s1);
          st3 = (fst s2)\<lparr>lastFieldName := Some name\<rparr>;
          e = elapsed_since (startTime st3) (snd s2)
      in (st3, snd (trackEvent cfg opts
                      ((form_data Field_focus)\<lparr>fieldName := Some name, fieldType := ftype,
                                               fieldIndex := idx, timeSinceStart := fst e\<rparr>)
                      (snd e))))"









text \<open>The form events sent so far, by type, in the order of their \<^verbatim>\<open>fetch\<close> calls.\<close>

fun fired :: "request list \<Rightarrow> FormEventType list" where
  "fired [] = []"
| "fired (FormRequest u ws ev # rs) = eventType ev # fired rs"
| "fired (VitalRequest u ws d h pa # rs) = fired rs"

section \<open>Observations and sample inputs\<close>

text \<open>The callbacks the bridge has invoked, in order.\<close>

fun invocations :: "effect list \<Rightarrow> callback list" where
  "invocations [] = []"
| "invocations (Invoked c # es) = c # invocations es"
| "invocations (e # es) = invocations es"

text \<open>
  Sample inputs for the concrete instances below: a provider mounted with only a website
  identifier, two transforms (one suppressing every payload, one returning it unchanged),
  and a browser state with a given store, with or without the tracker object.
\<close>

definition min_props :: provider_props where
  "min_props =
     \<lparr>pp_websiteId = ''site'', pp_host = None, pp_autoTrack = None, pp_respectDnt = None,
      pp_domains = None, pp_useEdgeRuntime = None, pp_tag = None, pp_excludeSearch = None,
      pp_excludeHash = None, pp_beforeSend = None\<rparr>"

definition plain_config :: config where
  "plain_config = EntrolyticsProvider_config min_props"

definition suppress_all :: before_send where
  "suppress_all t p h = (Returns JNull, h)"

definition pass_through :: before_send where
  "pass_through t p h = (Returns p, h)"

definition browser_world :: "bool \<Rightarrow> store \<Rightarrow> world" where
  "browser_world present h =
     \<lparr>has_window = True, tracker = present, heap = h, tagRef = None, timers = [], trace = []\<rparr>"

definition sample_page :: page where
  "sample_page = \<lparr>page_window = True, document = [], instances = []\<rparr>"

definition no_id_props :: analytics_props where
  "no_id_props = \<lparr>ap_websiteId = None, ap_host = None, ap_rest = min_props\<rparr>"

definition dev_environment :: environment where
  "dev_environment =
     \<lparr>env_window = True,
      window_process_env = None,
      import_meta_env = Some [''VITE_ENTROLYTICS_HOST'' \<mapsto> ''https://h''],
      import_meta_DEV = True\<rparr>"

definition sample_browser :: http_world where
  "sample_browser =
     \<lparr>hw_window = True, location_pathname = ''/signup'',
      location_href = ''https://site.example/signup'',
      clock = (\<lambda>n. 1000 + int n), clock_reads = 0,
      network = (\<lambda>n. FetchResolves), fetch_calls = [], console_error = []\<rparr>"

definition sample_form :: form_options where
  "sample_form =
     \<lparr>fo_formId = ''signup-form'', fo_formName = Some ''Newsletter Signup'',
      fo_autoTrack = None, fo_trackTiming = None, fo_trackAbandonment = None\<rparr>"

definition sample_vital :: WebVitalData where
  "sample_vital =
     \<lparr>metric = LCP, metric_value = 2500, rating = Good, delta = None, metric_id = None,
      navigationType = None, attribution = None\<rparr>"


text \<open>The form events a state has sent, and how many of them are \<^verbatim>\<open>start\<close> events.\<close>

definition sent :: "FormState \<times> http_world \<Rightarrow> FormEventType list" where
  "sent s = fired (fetch_calls (snd s))"




section \<open>Auxiliary facts\<close>

lemma tracker_calls_append: "tracker_calls (xs @ ys) = tracker_calls xs @ tracker_calls ys"
  by (induction xs rule: tracker_calls.induct) simp_all

lemma invocations_append: "invocations (xs @ ys) = invocations xs @ invocations ys"
  by (induction xs rule: invocations.induct) simp_all

lemma call_tracker_frame:
  "has_window (call_tracker c w) = has_window w"
  "tracker (call_tracker c w) = tracker w"
  "timers (call_tracker c w) = timers w"
  "invocations (trace (call_tracker c w)) = invocations (trace w)"
  by (simp_all add: call_tracker_def invocations_append)

lemma send_track_frame:
  "has_window (send_track e d w) = has_window w"
  "tracker (send_track e d w) = tracker w"
  "timers (send_track e d w) = timers w"
  "invocations (trace (send_track e d w)) = invocations (trace w)"
  by (simp_all add: send_track_def call_tracker_frame)

lemma track_stamp_and_send_frame:
  "has_window (track_stamp_and_send e d p w) = has_window w"
  "tracker (track_stamp_and_send e d p w) = tracker w"
  "timers (track_stamp_and_send e d p w) = timers w"
  "invocations (trace (track_stamp_and_send e d p w)) = invocations (trace w)"
  by (simp_all add: track_stamp_and_send_def send_track_frame invocations_append
      split: option.splits)

lemma track_callback_frame:
  "has_window (track_callback cfg e d w) = has_window w"
  "tracker (track_callback cfg e d w) = tracker w"
  "timers (track_callback cfg e d w) = timers w"
  "invocations (trace (track_callback cfg e d w)) = invocations (trace w)"
  by (simp_all add: track_callback_def heap_alloc_def Let_def track_stamp_and_send_frame
      invocations_append split: option.splits prod.splits bs_outcome.splits)

lemma callback_body_frame:
  "has_window (callback_body cfg cb w) = has_window w"
  "tracker (callback_body cfg cb w) = tracker w"
  "timers (callback_body cfg cb w) = timers w"
  "invocations (trace (callback_body cfg cb w)) = invocations (trace w)"
  by (cases cb; simp add: track_callback_frame trackPageView_callback_def
      trackRevenue_callback_def trackOutboundLink_callback_def identify_callback_def
      identifyUser_callback_def heap_alloc_def Let_def call_tracker_frame send_track_frame)+

lemma run_callback_frame:
  "has_window (run_callback cfg cb w) = has_window w"
  "tracker (run_callback cfg cb w) = tracker w"
  "timers (run_callback cfg cb w) = timers w"
  "invocations (trace (run_callback cfg cb w)) = invocations (trace w) @ [cb]"
  by (simp_all add: run_callback_def callback_body_frame invocations_append)

lemma fire_timer_absent:
  "\<not> tracker w \<Longrightarrow> fire_timer cfg w = w\<lparr>timers := rotate1 (timers w)\<rparr>"
  by (cases "timers w") (simp_all add: fire_timer_def tryExecute_def)

lemma ticks_absent:
  "\<not> tracker w \<Longrightarrow> ticks cfg n w = w\<lparr>timers := rotate n (timers w)\<rparr>"
proof (induction n arbitrary: w)
  case 0
  then show ?case by simp
next
  case (Suc n)
  have "ticks cfg (Suc n) w = ticks cfg n (w\<lparr>timers := rotate1 (timers w)\<rparr>)"
    using Suc.prems by (simp add: fire_timer_absent)
  also have "\<dots> = w\<lparr>timers := rotate n (rotate1 (timers w))\<rparr>"
    using Suc.prems by (simp add: Suc.IH)
  finally show ?case by (simp add: rotate1_rotate_swap)
qed

lemma fire_timer_present:
  "tracker w \<Longrightarrow>
   tracker (fire_timer cfg w) \<and> has_window (fire_timer cfg w) = has_window w
   \<and> timers (fire_timer cfg w) = tl (timers w)
   \<and> invocations (trace (fire_timer cfg w)) = invocations (trace w) @ take 1 (timers w)"
  by (cases "timers w") (simp_all add: fire_timer_def tryExecute_def run_callback_frame)

lemma ticks_present:
  "tracker w \<Longrightarrow>
   tracker (ticks cfg m w) \<and> timers (ticks cfg m w) = drop m (timers w)
   \<and> invocations (trace (ticks cfg m w)) = invocations (trace w) @ take m (timers w)"
proof (induction m arbitrary: w)
  case 0
  then show ?case by simp
next
  case (Suc m)
  note f = fire_timer_present [OF Suc.prems, of cfg]
  from f have t: "tracker (fire_timer cfg w)" by simp
  show ?case
    using Suc.IH [OF t] f
    by (cases "timers w") (simp_all)
qed

lemma update_fresh: "k \<notin> fst ` set al \<Longrightarrow> AList.update k v al = al @ [(k, v)]"
  by (induction al) auto

lemma spread_into_disjoint:
  "distinct (map fst ps) \<Longrightarrow> fst ` set ps \<inter> fst ` set base = {} \<Longrightarrow>
   spread_into base ps = base @ ps"
proof (induction ps arbitrary: base)
  case Nil
  then show ?case by (simp add: spread_into_def)
next
  case (Cons p ps)
  have fresh: "fst p \<notin> fst ` set base" using Cons.prems(2) by auto
  have step: "spread_into base (p # ps) = spread_into (base @ [p]) ps"
    using update_fresh [OF fresh, of "snd p"] by (simp add: spread_into_def)
  have d: "distinct (map fst ps)" using Cons.prems(1) by simp
  have dj: "fst ` set ps \<inter> fst ` set (base @ [p]) = {}"
    using Cons.prems by auto
  show ?case using Cons.IH [OF d dj] step by simp
qed

lemma spread_into_Nil: "distinct (map fst ps) \<Longrightarrow> spread_into [] ps = ps"
  using spread_into_disjoint [of ps "[]"] by simp

lemma map_of_spread_into:
  "distinct (map fst ps) \<Longrightarrow> map_of (spread_into base ps) = map_of base ++ map_of ps"
proof (induction ps arbitrary: base)
  case Nil
  then show ?case by (simp add: spread_into_def)
next
  case (Cons p ps)
  obtain k v where p: "p = (k, v)" by (cases p)
  have d: "distinct (map fst ps)" and nk: "k \<notin> fst ` set ps"
    using Cons.prems p by auto
  have "map_of (spread_into base (p # ps)) = map_of (spread_into (AList.update k v base) ps)"
    by (simp add: spread_into_def p)
  also have "\<dots> = map_of (AList.update k v base) ++ map_of ps"
    by (rule Cons.IH [OF d])
  also have "\<dots> = (map_of base)(k \<mapsto> v) ++ map_of ps"
    by (simp only: update_conv')
  also have "\<dots> = map_of base ++ map_of (p # ps)"
  proof (rule ext)
    fix x
    have "map_of ps k = None" using nk by (simp add: map_of_eq_None_iff)
    then show "((map_of base)(k \<mapsto> v) ++ map_of ps) x = (map_of base ++ map_of (p # ps)) x"
      by (auto simp: p map_add_def split: option.splits)
  qed
  finally show ?case .
qed

lemma plain_config_simps:
  "beforeSend plain_config = None"
  by (simp add: plain_config_def EntrolyticsProvider_config_def min_props_def)

section \<open>The dispatch operation \<^verbatim>\<open>track\<close>\<close>

text \<open>
  Claim C3. When a payload-transform callback is configured and, applied to the payload
  \<^verbatim>\<open>{name, data}\<close> that the \<^verbatim>\<open>track\<close> callback builds, it returns \<^verbatim>\<open>null\<close>, the
  dispatch is aborted: running the callback (at the call, or later from a poll) adds no
  call to the ones the external tracker has received.
\<close>

theorem track_suppressed_no_call:
  assumes "beforeSend cfg = Some f"
    and "fst (f ''event'' (JRef (length (heap w)))
               (heap w @ [[(''name'', JStr eventName), (''data'', opt_ref eventData)]]))
         = Returns JNull"
  shows "tracker_calls (trace (run_callback cfg (CbTrack eventName eventData) w))
         = tracker_calls (trace w)"
proof -
  obtain h2 where "f ''event'' (JRef (length (heap w)))
      (heap w @ [[(''name'', JStr eventName), (''data'', opt_ref eventData)]]) = (Returns JNull, h2)"
    using assms(2) by (metis fst_conv surj_pair)
  then show ?thesis
    using assms(1)
    by (simp add: run_callback_def track_callback_def heap_alloc_def Let_def
        tracker_calls_append)
qed

theorem track_suppressed_no_call_witness:
  "tracker_calls (trace (run_callback (plain_config\<lparr>beforeSend := Some suppress_all\<rparr>)
      (CbTrack ''x'' (Some 0)) (browser_world True [[(''a'', JNum 1)]]))) = []"
  using track_suppressed_no_call [of "plain_config\<lparr>beforeSend := Some suppress_all\<rparr>"
      suppress_all "browser_world True [[(''a'', JNum 1)]]" "''x''" "Some 0"]
  by (simp add: suppress_all_def browser_world_def)

text \<open>
  Claim C1, evaluated on the code. \<^verbatim>\<open>track('x', {a: 1})\<close> is called while the tracker is
  absent, then \<^verbatim>\<open>setTag('T')\<close>, then the tracker appears and the poll fires. The tag is
  read when the poll fires and written onto the local payload object (the second object
  of the store), but the tracker receives \<^verbatim>\<open>eventName\<close> and the caller's \<^verbatim>\<open>eventData\<close>,
  which carry no tag.
\<close>

theorem track_drops_tag:
  "tracker_calls (trace (fire_timer plain_config (tracker_loads (setTag ''T''
      (track plain_config ''x'' (Some 0) (browser_world False [[(''a'', JNum 1)]]))))))
   = [TrackEvent ''x'' (Some [(''a'', JNum 1)])]
   \<and> heap (fire_timer plain_config (tracker_loads (setTag ''T''
      (track plain_config ''x'' (Some 0) (browser_world False [[(''a'', JNum 1)]])))))
   = [[(''a'', JNum 1)],
      [(''name'', JStr ''x''), (''data'', JRef 0), (''tag'', JStr ''T'')]]"
  by (simp add: track_def waitForTracker_def tryExecute_def browser_world_def setTag_def
      tracker_loads_def fire_timer_def run_callback_def track_callback_def heap_alloc_def
      plain_config_simps track_stamp_and_send_def current_tag_def set_prop_def send_track_def
      call_tracker_def heap_props_def opt_ref_def)

section \<open>The tracker bridge\<close>

lemma count_list_rotate: "count_list (rotate n xs) x = count_list xs x"
proof -
  let ?k = "n mod length xs"
  have a: "count_list (take ?k xs @ drop ?k xs) x = count_list xs x"
    by simp
  have b: "count_list (rotate n xs) x = count_list (drop ?k xs) x + count_list (take ?k xs) x"
    by (simp add: rotate_drop_take)
  have c: "count_list (take ?k xs @ drop ?k xs) x
           = count_list (take ?k xs) x + count_list (drop ?k xs) x"
    by (rule count_list_append)
  show ?thesis using a b c by linarith
qed

lemma waitForTracker_absent:
  "has_window w \<Longrightarrow> \<not> tracker w \<Longrightarrow> waitForTracker cfg cb w = w\<lparr>timers := timers w @ [cb]\<rparr>"
  by (simp add: waitForTracker_def tryExecute_def)

lemma polls_while_absent:
  assumes "has_window w" "\<not> tracker w"
  shows "ticks cfg n (waitForTracker cfg cb w) = w\<lparr>timers := rotate n (timers w @ [cb])\<rparr>"
  using assms by (simp add: waitForTracker_absent ticks_absent)

text \<open>
  Claim C4. \<^verbatim>\<open>waitForTracker(callback)\<close>: without a \<^verbatim>\<open>window\<close> it returns at once, leaving
  the state as it is (nothing scheduled, nothing invoked). With the tracker present it
  runs the callback synchronously, once, and schedules nothing. With the tracker absent,
  however many polls fire, the callback is not invoked and stays pending; once the
  tracker has appeared and every pending poll has fired, the callback has been invoked
  exactly once for this registration (once more than for the registrations of the same
  callback that were pending before), and no poll is left.
\<close>

theorem waitForTracker_contract:
  "(\<not> has_window w \<longrightarrow> waitForTracker cfg cb w = w)
   \<and> (has_window w \<and> tracker w \<longrightarrow>
        waitForTracker cfg cb w = run_callback cfg cb w
        \<and> invocations (trace (waitForTracker cfg cb w)) = invocations (trace w) @ [cb]
        \<and> timers (waitForTracker cfg cb w) = timers w)
   \<and> (has_window w \<and> \<not> tracker w \<longrightarrow>
        invocations (trace (ticks cfg n (waitForTracker cfg cb w))) = invocations (trace w)
        \<and> cb \<in> set (timers (ticks cfg n (waitForTracker cfg cb w)))
        \<and> (length (timers w) < m \<longrightarrow>
             count_list (invocations (trace
               (ticks cfg m (tracker_loads (ticks cfg n (waitForTracker cfg cb w)))))) cb
             = count_list (invocations (trace w)) cb + count_list (timers w) cb + 1
             \<and> timers (ticks cfg m (tracker_loads (ticks cfg n (waitForTracker cfg cb w)))) = []))"
proof (intro conjI impI)
  assume "\<not> has_window w"
  then show "waitForTracker cfg cb w = w" by (simp add: waitForTracker_def)
next
  assume a: "has_window w \<and> tracker w"
  then show sync: "waitForTracker cfg cb w = run_callback cfg cb w"
    by (simp add: waitForTracker_def tryExecute_def)
  show "invocations (trace (waitForTracker cfg cb w)) = invocations (trace w) @ [cb]"
    by (simp add: sync run_callback_frame)
  show "timers (waitForTracker cfg cb w) = timers w"
    by (simp add: sync run_callback_frame)
next
  assume a: "has_window w \<and> \<not> tracker w"
  then have p: "ticks cfg n (waitForTracker cfg cb w) = w\<lparr>timers := rotate n (timers w @ [cb])\<rparr>"
    by (simp add: polls_while_absent)
  show "invocations (trace (ticks cfg n (waitForTracker cfg cb w))) = invocations (trace w)"
    by (simp add: p)
  show "cb \<in> set (timers (ticks cfg n (waitForTracker cfg cb w)))"
    by (simp add: p)
next
  assume a: "has_window w \<and> \<not> tracker w" and m: "length (timers w) < m"
  let ?q = "rotate n (timers w @ [cb])"
  let ?w2 = "tracker_loads (ticks cfg n (waitForTracker cfg cb w))"
  have p: "ticks cfg n (waitForTracker cfg cb w) = w\<lparr>timers := ?q\<rparr>"
    using a by (simp add: polls_while_absent)
  have w2: "tracker ?w2" "timers ?w2 = ?q" "trace ?w2 = trace w"
    by (simp_all add: p tracker_loads_def)
  have len: "length ?q \<le> m" using m by simp
  note t = ticks_present [OF w2(1), of cfg m]
  from t have inv: "invocations (trace (ticks cfg m ?w2)) = invocations (trace w) @ ?q"
    using len by (simp add: w2)
  show "count_list (invocations (trace (ticks cfg m ?w2))) cb
        = count_list (invocations (trace w)) cb + count_list (timers w) cb + 1"
    by (simp add: inv count_list_rotate)
  show "timers (ticks cfg m ?w2) = []"
    using t len by (simp add: w2)
qed

theorem waitForTracker_contract_witness:
  "waitForTracker plain_config (CbIdentify 0) ((browser_world False [[]])\<lparr>has_window := False\<rparr>)
     = (browser_world False [[]])\<lparr>has_window := False\<rparr>
   \<and> invocations (trace (waitForTracker plain_config (CbIdentify 0) (browser_world True [[]])))
     = [CbIdentify 0]
   \<and> invocations (trace (ticks plain_config 3
         (waitForTracker plain_config (CbIdentify 0) (browser_world False [[]])))) = []
   \<and> count_list (invocations (trace (ticks plain_config 2 (tracker_loads (ticks plain_config 3
         (waitForTracker plain_config (CbIdentify 0) (browser_world False [[]]))))))) (CbIdentify 0)
     = 1"
  using waitForTracker_contract [of "(browser_world False [[]])\<lparr>has_window := False\<rparr>"
      plain_config "CbIdentify 0" 3 2]
    waitForTracker_contract [of "browser_world True [[]]" plain_config "CbIdentify 0" 3 2]
    waitForTracker_contract [of "browser_world False [[]]" plain_config "CbIdentify 0" 3 2]
  by (simp add: browser_world_def run_callback_frame)

section \<open>The payload transform and the other dispatch operations\<close>

lemmas eval_dispatch =
  track_def trackPageView_def trackRevenue_def trackOutboundLink_def identify_def
  identifyUser_def waitForTracker_def tryExecute_def run_callback_def
  track_callback_def trackPageView_callback_def trackRevenue_callback_def
  trackOutboundLink_callback_def identify_callback_def identifyUser_callback_def
  pageview_payload_def revenue_data_def spread_into_def own_props_def
  track_stamp_and_send_def send_track_def call_tracker_def current_tag_def set_prop_def
  heap_alloc_def heap_props_def opt_ref_def opt_str_def browser_world_def pass_through_def

text \<open>
  Claim C2, evaluated on the code. With a transform configured (one that returns the
  payload unchanged) and the tracker present, \<^verbatim>\<open>track\<close> invokes the transform before the
  tracker call, while \<^verbatim>\<open>trackPageView\<close>, \<^verbatim>\<open>trackRevenue\<close>, \<^verbatim>\<open>trackOutboundLink\<close>,
  \<^verbatim>\<open>identify\<close> and \<^verbatim>\<open>identifyUser\<close> call the tracker without invoking it.
\<close>

theorem other_dispatches_skip_beforeSend:
  "trace (track (plain_config\<lparr>beforeSend := Some pass_through\<rparr>) ''x'' None
            (browser_world True []))
     = [Invoked (CbTrack ''x'' None), BeforeSend ''event'' (JRef 0),
        Called (TrackEvent ''x'' None)]
   \<and> trace (trackPageView (plain_config\<lparr>beforeSend := Some pass_through\<rparr>) (Some ''/home'') None
            (browser_world True []))
     = [Invoked (CbPageView (Some ''/home'') None),
        Called (TrackPayload [(''url'', JStr ''/home'')])]
   \<and> trace (trackRevenue (plain_config\<lparr>beforeSend := Some pass_through\<rparr>) ''purchase'' 10 None None
            (browser_world True []))
     = [Invoked (CbRevenue ''purchase'' 10 ''USD'' None),
        Called (TrackEvent ''purchase''
                  (Some [(''revenue'', JNum 10), (''currency'', JStr ''USD'')]))]
   \<and> trace (trackOutboundLink (plain_config\<lparr>beforeSend := Some pass_through\<rparr>) ''https://a.b'' None
            (browser_world True []))
     = [Invoked (CbOutbound ''https://a.b'' None),
        Called (TrackEvent ''outbound-link-click'' (Some [(''url'', JStr ''https://a.b'')]))]
   \<and> trace (identify (plain_config\<lparr>beforeSend := Some pass_through\<rparr>) 0
            (browser_world True [[(''plan'', JStr ''pro'')]]))
     = [Invoked (CbIdentify 0), Called (Identify [(''plan'', JStr ''pro'')])]
   \<and> trace (identifyUser (plain_config\<lparr>beforeSend := Some pass_through\<rparr>) ''u1'' None
            (browser_world True []))
     = [Invoked (CbIdentifyUser ''u1'' None), Called (Identify [(''id'', JStr ''u1'')])]"
  by (simp add: eval_dispatch)

section \<open>Revenue and identification\<close>

lemma revenue_callback_calls:
  assumes "tracker w"
  shows "tracker_calls (trace (run_callback cfg (CbRevenue eventName revenue currency data) w))
         = tracker_calls (trace w)
           @ [TrackEvent eventName
                (Some (revenue_data (own_props (heap w) data) revenue currency (current_tag w)))]"
  using assms
  by (simp add: run_callback_def trackRevenue_callback_def heap_alloc_def send_track_def
      call_tracker_def heap_props_def tracker_calls_append current_tag_def nth_append)

text \<open>
  Claim C6. With the currency argument omitted, \<^verbatim>\<open>trackRevenue\<close> (and the hook
  \<^verbatim>\<open>useTrackRevenue\<close>) hands the bridge the revenue callback with currency \<^verbatim>\<open>'USD'\<close>.
  When the bridge runs it, the tracker receives the event name and an object made of the
  caller's data with \<^verbatim>\<open>revenue\<close> and \<^verbatim>\<open>currency = 'USD'\<close> set on it, and with \<^verbatim>\<open>tag\<close> set
  to the current tag when there is one (a tag that is defined and not empty). The caller's
  data is an object, so its property names are distinct.
\<close>

theorem trackRevenue_default_currency:
  "trackRevenue cfg eventName revenue None data w
     = waitForTracker cfg (CbRevenue eventName revenue ''USD'' data) w
   \<and> useTrackRevenue cfg eventName revenue None data w
     = waitForTracker cfg (CbRevenue eventName revenue ''USD'' data) w
   \<and> (tracker w \<and> distinct (map fst (own_props (heap w) data)) \<longrightarrow>
        (let merged = AList.update ''currency'' (JStr ''USD'')
                        (AList.update ''revenue'' (JNum revenue) (own_props (heap w) data));
             sent = (case current_tag w of
                       None \<Rightarrow> merged
                     | Some t \<Rightarrow> AList.update ''tag'' (JStr t) merged)
         in tracker_calls (trace (run_callback cfg (CbRevenue eventName revenue ''USD'' data) w))
              = tracker_calls (trace w) @ [TrackEvent eventName (Some sent)]
            \<and> map_of merged
              = (map_of (own_props (heap w) data))
                  (''revenue'' \<mapsto> JNum revenue, ''currency'' \<mapsto> JStr ''USD'')
            \<and> map_of sent
              = (case current_tag w of
                   None \<Rightarrow> map_of merged
                 | Some t \<Rightarrow> (map_of merged)(''tag'' \<mapsto> JStr t))))"
proof (intro conjI impI)
  show "trackRevenue cfg eventName revenue None data w
        = waitForTracker cfg (CbRevenue eventName revenue ''USD'' data) w"
    by (simp add: trackRevenue_def)
  show "useTrackRevenue cfg eventName revenue None data w
        = waitForTracker cfg (CbRevenue eventName revenue ''USD'' data) w"
    by (simp add: useTrackRevenue_def trackRevenue_def)
next
  assume a: "tracker w \<and> distinct (map fst (own_props (heap w) data))"
  then have sp: "spread_into [] (own_props (heap w) data) = own_props (heap w) data"
    by (simp add: spread_into_Nil)
  show "let merged = AList.update ''currency'' (JStr ''USD'')
                        (AList.update ''revenue'' (JNum revenue) (own_props (heap w) data));
             sent = (case current_tag w of
                       None \<Rightarrow> merged
                     | Some t \<Rightarrow> AList.update ''tag'' (JStr t) merged)
         in tracker_calls (trace (run_callback cfg (CbRevenue eventName revenue ''USD'' data) w))
              = tracker_calls (trace w) @ [TrackEvent eventName (Some sent)]
            \<and> map_of merged
              = (map_of (own_props (heap w) data))
                  (''revenue'' \<mapsto> JNum revenue, ''currency'' \<mapsto> JStr ''USD'')
            \<and> map_of sent
              = (case current_tag w of
                   None \<Rightarrow> map_of merged
                 | Some t \<Rightarrow> (map_of merged)(''tag'' \<mapsto> JStr t))"
    using a
    by (simp add: revenue_callback_calls revenue_data_def sp Let_def update_conv'
        split: option.splits)
qed

theorem trackRevenue_default_currency_witness:
  "tracker_calls (trace (trackRevenue plain_config ''purchase'' 10 None (Some 0)
      (browser_world True [[(''sku'', JStr ''abc'')]])))
   = [TrackEvent ''purchase''
        (Some [(''sku'', JStr ''abc''), (''revenue'', JNum 10), (''currency'', JStr ''USD'')])]
   \<and> tracker_calls (trace (trackRevenue plain_config ''purchase'' 10 None (Some 0)
      (setTag ''T'' (browser_world True [[(''sku'', JStr ''abc'')]]))))
   = [TrackEvent ''purchase''
        (Some [(''sku'', JStr ''abc''), (''revenue'', JNum 10), (''currency'', JStr ''USD''),
               (''tag'', JStr ''T'')])]"
  using trackRevenue_default_currency [of plain_config "''purchase''" 10 "Some 0"
      "browser_world True [[(''sku'', JStr ''abc'')]]"]
    trackRevenue_default_currency [of plain_config "''purchase''" 10 "Some 0"
      "setTag ''T'' (browser_world True [[(''sku'', JStr ''abc'')]])"]
  by (simp add: browser_world_def setTag_def own_props_def heap_props_def current_tag_def
      waitForTracker_def tryExecute_def Let_def)

lemma identifyUser_callback_calls:
  assumes "tracker w"
  shows "tracker_calls (trace (run_callback cfg (CbIdentifyUser userId traits) w))
         = tracker_calls (trace w)
           @ [Identify (spread_into [(''id'', JStr userId)] (own_props (heap w) traits))]"
  using assms
  by (simp add: run_callback_def identifyUser_callback_def heap_alloc_def
      call_tracker_def heap_props_def tracker_calls_append nth_append)

text \<open>
  Claim C7 as stated fails: \<^verbatim>\<open>{ id: userId, ...traits }\<close> spreads the traits after the
  \<^verbatim>\<open>id\<close> field, so traits that carry an \<^verbatim>\<open>id\<close> of their own replace the user identifier.
  With \<^verbatim>\<open>identifyUser('u1', {id: 'other', plan: 'pro'})\<close> the tracker's \<^verbatim>\<open>identify\<close> receives
  \<^verbatim>\<open>id = 'other'\<close>.
\<close>

theorem identifyUser_id_overridden:
  "tracker_calls (trace (identifyUser plain_config ''u1'' (Some 0)
      (browser_world True [[(''id'', JStr ''other''), (''plan'', JStr ''pro'')]])))
   = [Identify [(''id'', JStr ''other''), (''plan'', JStr ''pro'')]]
   \<and> map_of [(''id'', JStr ''other''), (''plan'', JStr ''pro'')] ''id'' \<noteq> Some (JStr ''u1'')"
  by (simp add: eval_dispatch)

text \<open>
  Claim C7, amended. \<^verbatim>\<open>identifyUser(userId, traits)\<close> hands the bridge a callback that
  passes to the tracker's \<^verbatim>\<open>identify\<close> one object which, as a mapping, is \<^verbatim>\<open>id = userId\<close>
  overridden by the traits: it holds every entry of the traits, and its \<^verbatim>\<open>id\<close> field
  equals \<^verbatim>\<open>userId\<close> when the traits have no \<^verbatim>\<open>id\<close> entry of their own, and is the traits'
  \<^verbatim>\<open>id\<close> otherwise. Nothing is said about the order of the fields.
\<close>

theorem identifyUser_forwards:
  "identifyUser cfg userId traits w = waitForTracker cfg (CbIdentifyUser userId traits) w
   \<and> (tracker w \<and> distinct (map fst (own_props (heap w) traits)) \<longrightarrow>
        (\<exists>sent.
           tracker_calls (trace (run_callback cfg (CbIdentifyUser userId traits) w))
             = tracker_calls (trace w) @ [Identify sent]
           \<and> map_of sent = [''id'' \<mapsto> JStr userId] ++ map_of (own_props (heap w) traits)
           \<and> (\<forall>k v. map_of (own_props (heap w) traits) k = Some v \<longrightarrow> map_of sent k = Some v)
           \<and> (map_of (own_props (heap w) traits) ''id'' = None \<longrightarrow>
                map_of sent ''id'' = Some (JStr userId))))"
proof (intro conjI impI)
  show "identifyUser cfg userId traits w = waitForTracker cfg (CbIdentifyUser userId traits) w"
    by (simp add: identifyUser_def)
next
  assume a: "tracker w \<and> distinct (map fst (own_props (heap w) traits))"
  let ?ps = "own_props (heap w) traits"
  let ?sent = "spread_into [(''id'', JStr userId)] ?ps"
  have calls: "tracker_calls (trace (run_callback cfg (CbIdentifyUser userId traits) w))
               = tracker_calls (trace w) @ [Identify ?sent]"
    using a by (simp add: identifyUser_callback_calls)
  have m: "map_of ?sent = [''id'' \<mapsto> JStr userId] ++ map_of ?ps"
    using a map_of_spread_into [of ?ps "[(''id'', JStr userId)]"] by simp
  have entries: "\<forall>k v. map_of ?ps k = Some v \<longrightarrow> map_of ?sent k = Some v"
    by (simp add: m map_add_def)
  have own_id: "map_of ?ps ''id'' = None \<longrightarrow> map_of ?sent ''id'' = Some (JStr userId)"
    by (simp add: m map_add_def)
  show "\<exists>sent.
           tracker_calls (trace (run_callback cfg (CbIdentifyUser userId traits) w))
             = tracker_calls (trace w) @ [Identify sent]
           \<and> map_of sent = [''id'' \<mapsto> JStr userId] ++ map_of (own_props (heap w) traits)
           \<and> (\<forall>k v. map_of (own_props (heap w) traits) k = Some v \<longrightarrow> map_of sent k = Some v)
           \<and> (map_of (own_props (heap w) traits) ''id'' = None \<longrightarrow>
                map_of sent ''id'' = Some (JStr userId))"
    by (rule exI [of _ ?sent]) (intro conjI calls m entries own_id)
qed

theorem identifyUser_forwards_witness:
  "tracker_calls (trace (identifyUser plain_config ''u1'' (Some 0)
      (browser_world True [[(''plan'', JStr ''pro'')]])))
   = [Identify [(''id'', JStr ''u1''), (''plan'', JStr ''pro'')]]
   \<and> map_of [(''id'', JStr ''u1''), (''plan'', JStr ''pro'')]
     = [''id'' \<mapsto> JStr ''u1''] ++ map_of [(''plan'', JStr ''pro'')]"
proof -
  let ?w = "browser_world True [[(''plan'', JStr ''pro'')]]"
  have h: "tracker ?w \<and> distinct (map fst (own_props (heap ?w) (Some 0)))"
    by (simp add: browser_world_def own_props_def heap_props_def)
  have ev: "tracker_calls (trace (run_callback plain_config (CbIdentifyUser ''u1'' (Some 0)) ?w))
            = [Identify [(''id'', JStr ''u1''), (''plan'', JStr ''pro'')]]"
    by (simp add: eval_dispatch)
  have ps: "own_props (heap ?w) (Some 0) = [(''plan'', JStr ''pro'')]"
    by (simp add: browser_world_def own_props_def heap_props_def)
  have tr: "tracker_calls (trace ?w) = []"
    by (simp add: browser_world_def)
  from identifyUser_forwards [of plain_config "''u1''" "Some 0" ?w] h
  obtain sent where
    eq: "identifyUser plain_config ''u1'' (Some 0) ?w
         = waitForTracker plain_config (CbIdentifyUser ''u1'' (Some 0)) ?w"
    and c: "tracker_calls (trace (run_callback plain_config (CbIdentifyUser ''u1'' (Some 0)) ?w))
            = tracker_calls (trace ?w) @ [Identify sent]"
    and m: "map_of sent = [''id'' \<mapsto> JStr ''u1''] ++ map_of (own_props (heap ?w) (Some 0))"
    by blast
  have s: "sent = [(''id'', JStr ''u1''), (''plan'', JStr ''pro'')]"
    using c ev tr by simp
  have sync: "waitForTracker plain_config (CbIdentifyUser ''u1'' (Some 0)) ?w
              = run_callback plain_config (CbIdentifyUser ''u1'' (Some 0)) ?w"
    by (simp add: waitForTracker_def tryExecute_def browser_world_def)
  show ?thesis
    using eq sync ev m s ps by simp
qed

section \<open>The script loader\<close>

lemma getElementById_None_iff:
  "getElementById doc i = None \<longleftrightarrow> (\<forall>e \<in> set doc. elem_id e \<noteq> i)"
  by (auto simp: getElementById_def find_None_iff)

lemma script_count_zero:
  "getElementById doc SCRIPT_ID = None \<Longrightarrow> script_count doc = 0"
  by (simp add: script_count_def getElementById_None_iff)

lemma script_count_remove: "script_count (remove_by_id SCRIPT_ID doc) \<le> script_count doc"
  by (induction doc) (simp_all add: script_count_def)

lemma inject_effect_count:
  assumes "script_count doc \<le> 1"
  shows "script_count (fst (inject_effect win cfg (doc, inst))) \<le> 1"
proof (cases "win \<and> getElementById doc SCRIPT_ID = None")
  case True
  then have "script_count doc = 0" by (simp add: script_count_zero)
  then show ?thesis
    using True by (simp add: inject_effect_def script_count_def make_script_def)
next
  case False
  then show ?thesis using assms by (auto simp: inject_effect_def)
qed

lemma effect_cleanup_count:
  "script_count (fst (effect_cleanup (doc, inst))) \<le> script_count doc"
  by (simp add: effect_cleanup_def script_count_remove)

lemma page_step_count:
  assumes "script_count (document pg) \<le> 1"
  shows "script_count (document (page_step ev pg)) \<le> 1"
proof (cases ev)
  case (Mount cfg)
  then show ?thesis using inject_effect_count [OF assms] by (simp add: Let_def)
next
  case (Rerun i cfg)
  have "script_count (fst (inject_effect (page_window pg) cfg (effect_cleanup (document pg, inst)))) \<le> 1"
    for inst
  proof -
    have "script_count (fst (effect_cleanup (document pg, inst))) \<le> 1"
      using effect_cleanup_count [of "document pg" inst] assms by linarith
    then show ?thesis
      using inject_effect_count [of "fst (effect_cleanup (document pg, inst))" "page_window pg" cfg
          "snd (effect_cleanup (document pg, inst))"] by simp
  qed
  then show ?thesis using Rerun assms by (simp add: with_instance_def Let_def)
next
  case (ScriptLoaded i)
  then show ?thesis using assms by (simp add: with_instance_def Let_def)
next
  case (Unmount i)
  have "script_count (fst (effect_cleanup (document pg, inst))) \<le> 1" for inst
    using effect_cleanup_count [of "document pg" inst] assms by linarith
  then show ?thesis using Unmount assms by (simp add: with_instance_def Let_def)
qed

lemma page_run_count:
  "script_count (document pg) \<le> 1 \<Longrightarrow> script_count (document (page_run evs pg)) \<le> 1"
proof (induction evs arbitrary: pg)
  case Nil
  then show ?case by simp
next
  case (Cons e evs)
  show ?case using Cons.IH [OF page_step_count [OF Cons.prems]] by simp
qed

text \<open>
  Claim C5. When a provider is mounted in a browser and the document already holds an
  element with the reserved identifier, the effect leaves the document as it is (no
  element is created) and the new provider is ready at once, its loaded flag set and no
  cleanup registered. And a document with at most one element of that identifier keeps
  at most one through any sequence of mounts, configuration changes, load events and
  unmounts of any number of providers.
\<close>

theorem mount_with_script_present:
  "(page_window pg \<and> getElementById (document pg) SCRIPT_ID \<noteq> None \<longrightarrow>
      document (page_step (Mount cfg) pg) = document pg
      \<and> instances (page_step (Mount cfg) pg)
        = instances pg @ [\<lparr>isLoadedRef = True, isReady = True, has_cleanup = False\<rparr>])
   \<and> (script_count (document pg) \<le> 1 \<longrightarrow> script_count (document (page_run evs pg)) \<le> 1)"
proof (intro conjI impI)
  assume "page_window pg \<and> getElementById (document pg) SCRIPT_ID \<noteq> None"
  then show "document (page_step (Mount cfg) pg) = document pg"
    and "instances (page_step (Mount cfg) pg)
         = instances pg @ [\<lparr>isLoadedRef = True, isReady = True, has_cleanup = False\<rparr>]"
    by (simp_all add: inject_effect_def new_instance_def Let_def)
next
  assume "script_count (document pg) \<le> 1"
  then show "script_count (document (page_run evs pg)) \<le> 1"
    by (rule page_run_count)
qed

theorem mount_with_script_present_witness:
  "document (page_step (Mount plain_config) (page_step (Mount plain_config) sample_page))
     = document (page_step (Mount plain_config) sample_page)
   \<and> instances (page_step (Mount plain_config) (page_step (Mount plain_config) sample_page))
     = [\<lparr>isLoadedRef = False, isReady = False, has_cleanup = True\<rparr>,
        \<lparr>isLoadedRef = True, isReady = True, has_cleanup = False\<rparr>]
   \<and> script_count (document (page_run [Mount plain_config, Mount plain_config, ScriptLoaded 0,
         Unmount 1, Rerun 0 (plain_config\<lparr>host := ''https://h/''\<rparr>)] sample_page)) \<le> 1"
  using mount_with_script_present [of "page_step (Mount plain_config) sample_page" plain_config
      "[]"]
    mount_with_script_present [of sample_page plain_config
      "[Mount plain_config, Mount plain_config, ScriptLoaded 0,
         Unmount 1, Rerun 0 (plain_config\<lparr>host := ''https://h/''\<rparr>)]"]
  by (simp add: sample_page_def inject_effect_def getElementById_def new_instance_def
      make_script_def script_count_def Let_def)

section \<open>The zero-configuration component\<close>

lemma warning_names_variables:
  "sublist ENV_CRA_WEBSITE_ID missing_id_warning"
  "sublist ENV_VITE_WEBSITE_ID missing_id_warning"
proof -
  let ?a = "''[Entrolytics] Missing environment variable. Add one of the following to your .env file:''"
  let ?b = "''  - Create React App: ''"
  let ?c = "''  - Vite: ''"
  let ?d = "''Or pass websiteId as a prop.''"
  have "missing_id_warning
        = (?a @ [CHR 0x0A] @ ?b) @ ENV_CRA_WEBSITE_ID
          @ ([CHR 0x0A] @ ?c @ ENV_VITE_WEBSITE_ID @ [CHR 0x0A] @ ?d)"
    by (simp add: missing_id_warning_def)
  then show "sublist ENV_CRA_WEBSITE_ID missing_id_warning"
    unfolding sublist_def by blast
  have "missing_id_warning
        = (?a @ [CHR 0x0A] @ ?b @ ENV_CRA_WEBSITE_ID @ [CHR 0x0A] @ ?c) @ ENV_VITE_WEBSITE_ID
          @ ([CHR 0x0A] @ ?d)"
    by (simp add: missing_id_warning_def)
  then show "sublist ENV_VITE_WEBSITE_ID missing_id_warning"
    unfolding sublist_def by blast
qed

lemma finalWebsiteId_unresolved:
  assumes "\<not> str_truthy (ap_websiteId ap)"
    and "\<not> str_truthy (processEnv env ENV_CRA_WEBSITE_ID)"
    and "\<not> str_truthy (importMetaEnv env ENV_VITE_WEBSITE_ID)"
  shows "\<not> str_truthy (finalWebsiteId ap env)"
  using assms by (simp add: finalWebsiteId_def str_or_def)

text \<open>
  Claim C10. When no website identifier can be resolved (the property is omitted or
  empty, and neither \<^verbatim>\<open>REACT_APP_ENTROLYTICS_WEBSITE_ID\<close> nor
  \<^verbatim>\<open>VITE_ENTROLYTICS_WEBSITE_ID\<close> has a non-empty value), \<^verbatim>\<open>Analytics\<close> renders null, so
  mounting it leaves the page (document and providers) as it was: no script is injected.
  It prints the warning exactly in development mode, and the warning names both
  environment variables.
\<close>

theorem Analytics_without_website_id:
  "\<not> str_truthy (ap_websiteId ap)
   \<and> \<not> str_truthy (processEnv env ENV_CRA_WEBSITE_ID)
   \<and> \<not> str_truthy (importMetaEnv env ENV_VITE_WEBSITE_ID) \<longrightarrow>
     fst (Analytics ap env) = RenderNull
     \<and> Analytics_mount ap env pg = pg
     \<and> snd (Analytics ap env) = (if isDev env then [missing_id_warning] else [])
     \<and> sublist ENV_CRA_WEBSITE_ID missing_id_warning
     \<and> sublist ENV_VITE_WEBSITE_ID missing_id_warning"
proof (intro impI)
  assume a: "\<not> str_truthy (ap_websiteId ap)
   \<and> \<not> str_truthy (processEnv env ENV_CRA_WEBSITE_ID)
   \<and> \<not> str_truthy (importMetaEnv env ENV_VITE_WEBSITE_ID)"
  then have u: "\<not> str_truthy (finalWebsiteId ap env)"
    by (simp add: finalWebsiteId_unresolved)
  have r: "fst (Analytics ap env) = RenderNull"
    using u by (simp add: Analytics_def)
  have m: "Analytics_mount ap env pg = pg"
    using r by (simp add: Analytics_mount_def)
  have w: "snd (Analytics ap env) = (if isDev env then [missing_id_warning] else [])"
    using u by (simp add: Analytics_def)
  show "fst (Analytics ap env) = RenderNull
     \<and> Analytics_mount ap env pg = pg
     \<and> snd (Analytics ap env) = (if isDev env then [missing_id_warning] else [])
     \<and> sublist ENV_CRA_WEBSITE_ID missing_id_warning
     \<and> sublist ENV_VITE_WEBSITE_ID missing_id_warning"
    using r m w warning_names_variables by blast
qed

theorem Analytics_without_website_id_witness:
  "Analytics no_id_props dev_environment = (RenderNull, [missing_id_warning])
   \<and> Analytics_mount no_id_props dev_environment sample_page = sample_page
   \<and> Analytics (no_id_props\<lparr>ap_websiteId := Some ''''\<rparr>)
        (dev_environment\<lparr>import_meta_DEV := False\<rparr>) = (RenderNull, [])"
  using Analytics_without_website_id [of no_id_props dev_environment sample_page]
    Analytics_without_website_id [of "no_id_props\<lparr>ap_websiteId := Some ''''\<rparr>"
      "dev_environment\<lparr>import_meta_DEV := False\<rparr>" sample_page]
  by (simp add: no_id_props_def dev_environment_def str_truthy_def processEnv_def
      importMetaEnv_def ENV_CRA_WEBSITE_ID_def ENV_VITE_WEBSITE_ID_def isDev_def prod_eq_iff)

section \<open>The direct-HTTP trackers\<close>

lemma settle_try_catch_log:
  "fst (settle (try_catch body (log_error msg))) = Fulfilled"
  by (cases "fst body") (simp_all add: settle_def try_catch_def log_error_def)

lemma console_after_failure:
  assumes "fst body = Inl err"
  shows "console_error (snd (settle (try_catch body (log_error msg))))
         = console_error (snd body) @ [(msg, err)]"
  using assms by (simp add: settle_def try_catch_def log_error_def)

text \<open>
  Claim C9. The promise returned by the form tracker's \<^verbatim>\<open>trackEvent\<close> and by the
  web-vitals \<^verbatim>\<open>trackVital\<close> is always fulfilled, never rejected, however the \<^verbatim>\<open>fetch\<close>
  call ends (and an \<^verbatim>\<open>async\<close> function does not throw at its caller). When the call of
  \<^verbatim>\<open>fetch\<close> throws or its promise rejects, the error is caught and printed with
  \<^verbatim>\<open>console.error\<close>.
\<close>

theorem direct_http_never_rejects:
  "fst (trackEvent cfg opts d hw) = Fulfilled
   \<and> fst (trackVital cfg v hw) = Fulfilled
   \<and> (hw_window hw \<and> await_fetch (network hw (length (fetch_calls hw))) = Inl err \<longrightarrow>
        console_error (snd (trackEvent cfg opts d hw))
          = console_error hw @ [(''[Entrolytics] Failed to track form event:'', err)]
        \<and> console_error (snd (trackVital cfg v hw))
          = console_error hw @ [(''[Entrolytics] Failed to track vital:'', err)])"
proof (intro conjI impI)
  show "fst (trackEvent cfg opts d hw) = Fulfilled"
    by (simp add: trackEvent_def settle_try_catch_log)
  show "fst (trackVital cfg v hw) = Fulfilled"
    by (simp add: trackVital_def settle_try_catch_log)
next
  assume a: "hw_window hw \<and> await_fetch (network hw (length (fetch_calls hw))) = Inl err"
  then show "console_error (snd (trackEvent cfg opts d hw))
          = console_error hw @ [(''[Entrolytics] Failed to track form event:'', err)]"
    by (simp add: trackEvent_def console_after_failure post_json_def)
  from a show "console_error (snd (trackVital cfg v hw))
          = console_error hw @ [(''[Entrolytics] Failed to track vital:'', err)]"
    by (simp add: trackVital_def console_after_failure post_json_def)
qed

theorem direct_http_never_rejects_witness:
  "trackEvent plain_config sample_form (form_data Start)
       (sample_browser\<lparr>network := (\<lambda>n. FetchRejects ''offline'')\<rparr>)
     = (Fulfilled,
        sample_browser\<lparr>network := (\<lambda>n. FetchRejects ''offline''),
          fetch_calls := [FormRequest ''https://ng.entrolytics.click/api/collect/forms'' ''site''
             ((form_data Start)\<lparr>fe_formId := Some ''signup-form'',
                fe_formName := Some ''Newsletter Signup'', fe_urlPath := Some ''/signup''\<rparr>)],
          console_error := [(''[Entrolytics] Failed to track form event:'', ''offline'')]\<rparr>)
   \<and> fst (trackVital plain_config sample_vital
       (sample_browser\<lparr>network := (\<lambda>n. FetchThrows ''fetch is not defined'')\<rparr>)) = Fulfilled
   \<and> console_error (snd (trackVital plain_config sample_vital
       (sample_browser\<lparr>network := (\<lambda>n. FetchThrows ''fetch is not defined'')\<rparr>)))
     = [(''[Entrolytics] Failed to track vital:'', ''fetch is not defined'')]"
  using direct_http_never_rejects [of plain_config sample_form "form_data Start"
      "sample_browser\<lparr>network := (\<lambda>n. FetchRejects ''offline'')\<rparr>" sample_vital "''offline''"]
    direct_http_never_rejects [of plain_config sample_form "form_data Start"
      "sample_browser\<lparr>network := (\<lambda>n. FetchThrows ''fetch is not defined'')\<rparr>" sample_vital
      "''fetch is not defined''"]
  by (simp add: sample_browser_def sample_form_def trackEvent_def settle_def try_catch_def
      log_error_def post_json_def form_payload_def form_data_def str_or_def str_truthy_def
      host_or_def plain_config_def EntrolyticsProvider_config_def min_props_def dflt_def
      DEFAULT_HOST_def)

section \<open>Form tracking sessions\<close>

lemma fired_append: "fired (xs @ ys) = fired xs @ fired ys"
  by (induction xs rule: fired.induct) simp_all

lemma eventType_form_payload: "eventType (form_payload opts d hw) = eventType d"
  by (simp add: form_payload_def Let_def)

lemma trackEvent_window: "hw_window (snd (trackEvent cfg opts d hw)) = hw_window hw"
  by (cases "await_fetch (network hw (length (fetch_calls hw)))")
     (simp_all add: trackEvent_def settle_def try_catch_def log_error_def post_json_def)

lemma trackEvent_fired:
  "fired (fetch_calls (snd (trackEvent cfg opts d hw)))
   = fired (fetch_calls hw) @ (if hw_window hw then [eventType d] else [])"
  by (cases "await_fetch (network hw (length (fetch_calls hw)))")
     (simp_all add: trackEvent_def settle_def try_catch_def log_error_def post_json_def
        fired_append eventType_form_payload)

lemma Date_now_frame:
  "hw_window (snd (Date_now hw)) = hw_window hw"
  "fetch_calls (snd (Date_now hw)) = fetch_calls hw"
  by (simp_all add: Date_now_def)


lemma trackStart_effect:
  "sent (trackStart cfg opts s)
     = sent s @ (if startTime (fst s) = None \<and> hw_window (snd s) then [Start] else [])"
  "startTime (fst (trackStart cfg opts s)) \<noteq> None"
  "hasInteracted (fst (trackStart cfg opts s)) = hasInteracted (fst s)"
  "hw_window (snd (trackStart cfg opts s)) = hw_window (snd s)"
  by (simp_all add: trackStart_def sent_def Let_def trackEvent_fired trackEvent_window
      Date_now_frame form_data_def)







lemma trackFieldFocus_interacted:
  "hasInteracted (fst (trackFieldFocus cfg opts n t i s))"
  by (simp add: trackFieldFocus_def Let_def trackStart_effect)












end
